theory Spec2Isabelle
  imports Complex_Main
begin

section \<open>Incident verification scoring: the embedding\<close>

text \<open>
  The scoring engine of the repository (\<^verbatim>\<open>app/services/verification.py\<close>,
  \<^verbatim>\<open>app/utils/spatial_utils.py\<close>, \<^verbatim>\<open>app/models/user.py\<close> and the reporter
  step of \<^verbatim>\<open>app/api/routes/incidents.py\<close>) as HOL functions.

  Conventions of the embedding:
  \<^item> a Python \<^verbatim>\<open>float\<close> is a \<^typ>\<open>real\<close>: arithmetic is exact, rounding is not modelled;
  \<^item> a \<^verbatim>\<open>datetime\<close> is a count of microseconds, tagged with whether it carries a
    time zone; comparing a naive with an aware value raises \<^verbatim>\<open>TypeError\<close> in Python,
    and arithmetic that leaves the range of \<^verbatim>\<open>datetime\<close> raises \<^verbatim>\<open>OverflowError\<close>;
  \<^item> the clock read by \<^verbatim>\<open>datetime.now(timezone.utc)\<close> is the explicit argument \<open>now\<close>;
  \<^item> a \<^verbatim>\<open>str\<close> is the list of its code points;
  \<^item> the incident table and the user table are lists of rows.
\<close>

subsection \<open>Errors, enumerations, configuration\<close>

datatype error = TypeError | ValueError | OverflowError | IntegrityError

datatype IncidentType =
    ARMED_ATTACK | KIDNAPPING | BANDITRY | INSURGENT_ATTACK | FARMER_HERDER_CLASH
  | ROBBERY | COMMUNAL_CLASH | CATTLE_RUSTLING | BOMB_BLAST | SHOOTING | OTHER

record bounds =
  min_lat :: real
  max_lat :: real
  min_lon :: real
  max_lon :: real

definition NIGERIA_BOUNDS :: bounds where
  "NIGERIA_BOUNDS = \<lparr>min_lat = 4.0, max_lat = 14.0, min_lon = 2.5, max_lon = 15.0\<rparr>"

subsection \<open>Geospatial primitives\<close>

definition validate_nigerian_coordinates :: "real \<Rightarrow> real \<Rightarrow> bool" where
  "validate_nigerian_coordinates longitude latitude =
     ((min_lon NIGERIA_BOUNDS \<le> longitude \<and> longitude \<le> max_lon NIGERIA_BOUNDS) \<and>
      (min_lat NIGERIA_BOUNDS \<le> latitude \<and> latitude \<le> max_lat NIGERIA_BOUNDS))"



subsection \<open>Spatial plausibility\<close>

definition check_spatial_plausibility :: "real \<Rightarrow> real \<Rightarrow> IncidentType \<Rightarrow> real" where
  "check_spatial_plausibility latitude longitude incident_type =
     (if \<not> validate_nigerian_coordinates longitude latitude then 0.0
      else if incident_type \<in> set [INSURGENT_ATTACK, BOMB_BLAST] then
        (if (10.5 \<le> latitude \<and> latitude \<le> 13.9) \<and> (11.0 \<le> longitude \<and> longitude \<le> 14.5)
         then 0.9 else 0.6)
      else if incident_type \<in> set [BANDITRY, KIDNAPPING, CATTLE_RUSTLING] then
        (if (11.0 \<le> latitude \<and> latitude \<le> 13.5) \<and> (4.0 \<le> longitude \<and> longitude \<le> 9.0)
         then 0.9 else 0.7)
      else if incident_type = FARMER_HERDER_CLASH then
        (if (6.5 \<le> latitude \<and> latitude \<le> 10.0) \<and> (7.0 \<le> longitude \<and> longitude \<le> 10.0)
         then 0.9 else 0.7)
      else 0.7)"

subsection \<open>Temporal plausibility\<close>

datatype datetime = Naive int | Aware int

definition us_per_day :: int where
  "us_per_day = 86400000000"

definition us_per_hour :: int where
  "us_per_hour = 3600000000"

text \<open>
  \<open>now\<close> is the aware UTC instant the function reads from the clock. The attribute
  \<^verbatim>\<open>.days\<close> of a non-negative \<^verbatim>\<open>timedelta\<close> is its number of whole days.
\<close>

definition check_temporal_plausibility :: "int \<Rightarrow> datetime \<Rightarrow> IncidentType \<Rightarrow> error + real" where
  "check_temporal_plausibility now timestamp incident_type =
     (case timestamp of
        Naive t \<Rightarrow> Inl TypeError
      | Aware t \<Rightarrow>
          if t > now then Inr 0.0
          else let days_old = (now - t) div us_per_day
               in if days_old > 7 then Inr 0.4
                  else if days_old > 3 then Inr 0.6
                  else if days_old > 1 then Inr 0.8
                  else Inr 1.0)"

subsection \<open>Cross-verification against the incident table\<close>

text \<open>
  A row of the incident table, with the three columns the query reads. A location is the
  pair (longitude, latitude), as \<^verbatim>\<open>create_point_geometry\<close> builds it. The timestamp
  column is \<^verbatim>\<open>DateTime(timezone=True)\<close>: an instant.
\<close>

record incident =
  inc_type :: IncidentType
  inc_location :: "real \<times> real"
  inc_timestamp :: int

definition create_point_geometry :: "real \<Rightarrow> real \<Rightarrow> real \<times> real" where
  "create_point_geometry longitude latitude = (longitude, latitude)"

text \<open>
  On geometries of SRID 4326 \<^verbatim>\<open>ST_DWithin\<close> compares the planar distance, in degrees,
  with the given bound; the test is written on the squares. The query parameter is
  compared with the column as an instant; a naive parameter is read as UTC.
\<close>

definition ST_DWithin :: "real \<times> real \<Rightarrow> real \<times> real \<Rightarrow> real \<Rightarrow> bool" where
  "ST_DWithin g1 g2 d = (0 \<le> d \<and> (fst g1 - fst g2)\<^sup>2 + (snd g1 - snd g2)\<^sup>2 \<le> d\<^sup>2)"

definition instant :: "datetime \<Rightarrow> int" where
  "instant d = (case d of Naive t \<Rightarrow> t | Aware t \<Rightarrow> t)"

text \<open>
  The count of a datetime starts at 0001-01-01 00:00:00, the least value of the type;
  the greatest is 9999-12-31 23:59:59.999999. An aware datetime is taken in UTC, as the
  clock reading is. Adding a \<^verbatim>\<open>timedelta\<close> raises \<^verbatim>\<open>OverflowError\<close> when the
  result is outside the range.
\<close>

definition datetime_min :: int where
  "datetime_min = 0"

definition datetime_max :: int where
  "datetime_max = 315537897599999999"

definition add_timedelta :: "datetime \<Rightarrow> int \<Rightarrow> error + datetime" where
  "add_timedelta d delta =
     (case d of
        Naive t \<Rightarrow>
          if t + delta < datetime_min \<or> datetime_max < t + delta then Inl OverflowError
          else Inr (Naive (t + delta))
      | Aware t \<Rightarrow>
          if t + delta < datetime_min \<or> datetime_max < t + delta then Inl OverflowError
          else Inr (Aware (t + delta)))"

definition check_cross_verification ::
  "real \<Rightarrow> real \<Rightarrow> datetime \<Rightarrow> IncidentType \<Rightarrow> incident list \<Rightarrow> error + real" where
  "check_cross_verification latitude longitude timestamp incident_type db =
     (let point = create_point_geometry longitude latitude
      in case add_timedelta timestamp (- (6 * us_per_hour)) of
           Inl e \<Rightarrow> Inl e
         | Inr time_window_start \<Rightarrow>
             (case add_timedelta timestamp (6 * us_per_hour) of
                Inl e \<Rightarrow> Inl e
              | Inr time_window_end \<Rightarrow>
                  let nearby_count = length (filter (\<lambda>i.
                        ST_DWithin (inc_location i) point 0.09 \<and>
                        (instant time_window_start \<le> inc_timestamp i \<and>
                         inc_timestamp i \<le> instant time_window_end) \<and>
                        inc_type i = incident_type) db)
                  in if nearby_count \<ge> 3 then Inr 1.0
                     else if nearby_count = 2 then Inr 0.9
                     else if nearby_count = 1 then Inr 0.7
                     else Inr 0.5))"

subsection \<open>Description quality\<close>

type_synonym str = "nat list"

text \<open>
  The code points for which \<^verbatim>\<open>str.isspace\<close> holds; \<^verbatim>\<open>strip\<close> and \<^verbatim>\<open>split\<close>
  without arguments use the same set.
\<close>

definition isspace :: "nat \<Rightarrow> bool" where
  "isspace c = (c \<in> set [9, 10, 11, 12, 13, 28, 29, 30, 31, 32, 133, 160, 5760,
      8192, 8193, 8194, 8195, 8196, 8197, 8198, 8199, 8200, 8201, 8202,
      8232, 8233, 8239, 8287, 12288])"

definition strip :: "str \<Rightarrow> str" where
  "strip s = rev (dropWhile isspace (rev (dropWhile isspace s)))"

text \<open>\<open>split_aux cur s\<close>: the word being read is \<open>cur\<close>, reversed.\<close>

fun split_aux :: "str \<Rightarrow> str \<Rightarrow> str list" where
  "split_aux cur [] = (if cur = [] then [] else [rev cur])"
| "split_aux cur (c # s) =
     (if isspace c then (if cur = [] then split_aux [] s else rev cur # split_aux [] s)
      else split_aux (c # cur) s)"

definition split :: "str \<Rightarrow> str list" where
  "split s = split_aux [] s"

text \<open>
  \<^verbatim>\<open>str.lower\<close>, one code point at a time: the ASCII capitals, the Kelvin sign (to
  \<open>k\<close>) and the dotted capital I (to \<open>i\<close> and a combining dot). Every other code point is
  kept: its lower-case form holds no ASCII letter, so the search for the ASCII keywords
  below cannot tell the difference.
\<close>

definition lower_cp :: "nat \<Rightarrow> str" where
  "lower_cp c =
     (if 65 \<le> c \<and> c \<le> 90 then [c + 32]
      else if c = 8490 then [107]
      else if c = 304 then [105, 775]
      else [c])"

definition lower :: "str \<Rightarrow> str" where
  "lower s = concat (map lower_cp s)"

text \<open>\<open>contains k s\<close> is Python's \<^verbatim>\<open>k in s\<close> on strings.\<close>

fun contains :: "str \<Rightarrow> str \<Rightarrow> bool" where
  "contains k [] = (k = [])"
| "contains k (c # s) = (take (length k) (c # s) = k \<or> contains k s)"

definition detail_keywords :: "str list" where
  "detail_keywords = map (map of_char)
     [''armed'', ''men'', ''attacked'', ''village'', ''town'', ''killed'', ''injured'',
      ''gunmen'', ''soldiers'', ''police'', ''morning'', ''evening'', ''night'',
      ''road'', ''market'', ''church'', ''mosque'', ''school'', ''fled'', ''casualties'']"

text \<open>The argument is \<open>None\<close> for Python's \<^verbatim>\<open>None\<close>; both it and the empty string are falsy.\<close>

definition check_description_quality :: "str option \<Rightarrow> real" where
  "check_description_quality description =
     (case description of
        None \<Rightarrow> 0.0
      | Some d \<Rightarrow>
          if d = [] then 0.0
          else let description = strip d;
                   word_count = length (split description);
                   keyword_matches = sum_list (map (\<lambda>keyword. (1::nat))
                     (filter (\<lambda>keyword. contains (lower keyword) (lower description))
                        detail_keywords));
                   score = 0.5;
                   score = (if word_count \<ge> 20 then score + 0.2
                            else if word_count \<ge> 10 then score + 0.1
                            else score);
                   score = (if keyword_matches \<ge> 3 then score + 0.3
                            else if keyword_matches \<ge> 1 then score + 0.15
                            else score)
               in min 1.0 score)"

subsection \<open>The aggregator\<close>

definition calculate_verification_score ::
  "int \<Rightarrow> IncidentType \<Rightarrow> real \<Rightarrow> real \<Rightarrow> datetime \<Rightarrow> real \<Rightarrow> str option \<Rightarrow> incident list
     \<Rightarrow> error + real" where
  "calculate_verification_score now incident_type latitude longitude timestamp
       reporter_trust_score description db =
     (let score = 0.0;
          weight_sum = 0.0;
          spatial_score = check_spatial_plausibility latitude longitude incident_type;
          score = score + spatial_score * 0.20;
          weight_sum = weight_sum + 0.20
      in case check_temporal_plausibility now timestamp incident_type of
           Inl e \<Rightarrow> Inl e
         | Inr temporal_score \<Rightarrow>
             let score = score + temporal_score * 0.15;
                 weight_sum = weight_sum + 0.15;
                 score = score + reporter_trust_score * 0.30;
                 weight_sum = weight_sum + 0.30
             in (case check_cross_verification latitude longitude timestamp incident_type db of
                   Inl e \<Rightarrow> Inl e
                 | Inr cross_verify_score \<Rightarrow>
                     let score = score + cross_verify_score * 0.25;
                         weight_sum = weight_sum + 0.25;
                         description_score = check_description_quality description;
                         score = score + description_score * 0.10;
                         weight_sum = weight_sum + 0.10;
                         final_score = (if weight_sum > 0 then score / weight_sum else 0.5)
                     in Inr (max 0.0 (min 1.0 final_score))))"

subsection \<open>Reporters and their trust score\<close>

text \<open>
  The columns of the user table that scoring reads or writes. The three counters are
  \<^verbatim>\<open>Float\<close> columns with default 0.
\<close>

record user =
  phone_number :: "string option"
  trust_score :: real
  reports_submitted :: real
  reports_verified :: real
  reports_rejected :: real

definition update_trust_score :: "user \<Rightarrow> user" where
  "update_trust_score self =
     (if reports_submitted self = 0 then self\<lparr>trust_score := 0.5\<rparr>
      else let verified_rate = reports_verified self / reports_submitted self;
               rejected_rate = reports_rejected self / reports_submitted self;
               volume_weight = min (reports_submitted self / 20) 1.0;
               base_score = (verified_rate * 0.8) + 0.2;
               penalty = rejected_rate * 0.3
           in self\<lparr>trust_score :=
                max 0.0 (min 1.0 ((base_score - penalty) * volume_weight
                                   + (0.5 * (1 - volume_weight))))\<rparr>)"

subsection \<open>The reporter step of \<^verbatim>\<open>create_incident\<close>\<close>

text \<open>
  A row of the user table as the database holds it: the columns above and the two
  credential columns, which are \<^verbatim>\<open>nullable=False\<close> and have no default.
\<close>

record user_row = user +
  email :: "string option"
  password_hash :: "string option"

text \<open>
  The INSERT that \<^verbatim>\<open>db.flush()\<close> issues for a row handed to \<^verbatim>\<open>db.add\<close>: it fails
  with \<^verbatim>\<open>IntegrityError\<close> when a NOT NULL column is empty or the unique \<open>email\<close> is
  already taken.
\<close>

definition flush_insert :: "user_row \<Rightarrow> user_row list \<Rightarrow> error + user_row list" where
  "flush_insert new_row db =
     (if email new_row = None \<or> password_hash new_row = None then Inl IntegrityError
      else if email new_row \<in> set (map email db) then Inl IntegrityError
      else Inr (db @ [new_row]))"

text \<open>
  The two fields of the request that the step reads, and the step itself (the lines
  from \<^verbatim>\<open>reporter = None\<close> to \<^verbatim>\<open>reporter_trust_score = reporter.trust_score\<close>).
  It returns the user table as the session holds it afterwards, the position of the
  reporter's row if there is one, and the trust score handed to the scoring pipeline;
  or the exception that ends the request. \<^verbatim>\<open>User(phone_number, trust_score)\<close> sets
  no other column: the counters get their default 0, the credentials stay empty.
\<close>

record IncidentCreate =
  reporter_phone :: "string option"
  is_anonymous :: bool

fun query_first :: "('a \<Rightarrow> bool) \<Rightarrow> 'a list \<Rightarrow> nat option" where
  "query_first P [] = None"
| "query_first P (x # xs) = (if P x then Some 0 else map_option Suc (query_first P xs))"

definition create_incident_reporter ::
  "IncidentCreate \<Rightarrow> user_row list \<Rightarrow> error + user_row list \<times> nat option \<times> real" where
  "create_incident_reporter incident_data db =
     (case reporter_phone incident_data of
        None \<Rightarrow> Inr (db, None, 0.5)
      | Some phone \<Rightarrow>
          if phone \<noteq> [] \<and> \<not> is_anonymous incident_data then
            (case query_first (\<lambda>u. phone_number u = Some phone) db of
               None \<Rightarrow>
                 let reporter = \<lparr>phone_number = Some phone, trust_score = 0.5,
                       reports_submitted = 0, reports_verified = 0, reports_rejected = 0,
                       email = None, password_hash = None\<rparr>
                 in (case flush_insert reporter db of
                       Inl e \<Rightarrow> Inl e
                     | Inr db' \<Rightarrow> Inr (db', Some (length db), trust_score reporter))
             | Some i \<Rightarrow>
                 let reporter = (db ! i)\<lparr>reports_submitted := reports_submitted (db ! i) + 1\<rparr>
                 in Inr (db[i := reporter], Some i, trust_score reporter))
          else Inr (db, None, 0.5))"

subsection \<open>Sample data\<close>

text \<open>
  An incident table with five rows around the point (12 N, 7 E) and the instant
  86400000000 (one day after the least datetime): two banditry reports within 0.09
  degrees and six hours, one report of another type, one too far away and one too late.
\<close>

definition sample_store :: "incident list" where
  "sample_store =
     [\<lparr>inc_type = BANDITRY, inc_location = (7.05, 12.0), inc_timestamp = 90000000000\<rparr>,
      \<lparr>inc_type = BANDITRY, inc_location = (7.0, 12.05), inc_timestamp = 82800000000\<rparr>,
      \<lparr>inc_type = ROBBERY, inc_location = (7.0, 12.0), inc_timestamp = 86400000000\<rparr>,
      \<lparr>inc_type = BANDITRY, inc_location = (7.0, 12.1), inc_timestamp = 86400000000\<rparr>,
      \<lparr>inc_type = BANDITRY, inc_location = (7.0, 12.0), inc_timestamp = 111600000000\<rparr>]"

section \<open>Properties\<close>

subsection \<open>Cross-verification\<close>

lemma add_timedelta_instant:
  "add_timedelta ts delta =
     (if instant ts + delta < datetime_min \<or> datetime_max < instant ts + delta
      then Inl OverflowError
      else Inr (case ts of Naive t \<Rightarrow> Naive (t + delta) | Aware t \<Rightarrow> Aware (t + delta)))"
  by (cases ts) (simp_all add: add_timedelta_def instant_def)

lemma instant_shift:
  "instant (case ts of Naive t \<Rightarrow> Naive (t + delta) | Aware t \<Rightarrow> Aware (t + delta))
     = instant ts + delta"
  by (cases ts) (simp_all add: instant_def)

text \<open>
  The evaluator written out: it fails exactly when the window of six hours on either
  side of the timestamp leaves the range of datetimes; otherwise it counts the rows of
  the table that lie within 0.09 degrees (planar distance) of the point, within the
  window (both ends included) and have the same type, and scores the count.
\<close>

lemma check_cross_verification_unfold:
  "check_cross_verification lat lon ts ty db =
     (if instant ts - 6 * us_per_hour < datetime_min \<or> datetime_max < instant ts + 6 * us_per_hour
      then Inl OverflowError
      else Inr (let n = length (filter (\<lambda>i.
                    ((fst (inc_location i) - lon)\<^sup>2 + (snd (inc_location i) - lat)\<^sup>2 \<le> 0.09\<^sup>2) \<and>
                    (instant ts - 6 * us_per_hour \<le> inc_timestamp i \<and>
                     inc_timestamp i \<le> instant ts + 6 * us_per_hour) \<and>
                    inc_type i = ty) db)
                in if 3 \<le> n then 1.0 else if n = 2 then 0.9 else if n = 1 then 0.7 else 0.5))"
proof -
  have lo: "instant ts + - (6 * us_per_hour) = instant ts - 6 * us_per_hour" by simp
  have up: "datetime_max < instant ts - 6 * us_per_hour \<Longrightarrow> datetime_max < instant ts + 6 * us_per_hour"
    by (simp add: us_per_hour_def)
  have dn: "instant ts + 6 * us_per_hour < datetime_min \<Longrightarrow> instant ts - 6 * us_per_hour < datetime_min"
    by (simp add: us_per_hour_def)
  show ?thesis
    unfolding check_cross_verification_def add_timedelta_instant lo
    using up dn
    by (auto simp: Let_def instant_shift create_point_geometry_def ST_DWithin_def)
qed




lemma sample_cross_overflow:
  "check_cross_verification 12 7 (Aware 0) BANDITRY sample_store = Inl OverflowError"
  by (simp add: check_cross_verification_def add_timedelta_def datetime_min_def
      us_per_hour_def Let_def)




subsection \<open>The aggregator\<close>

lemma check_temporal_plausibility_aware:
  "check_temporal_plausibility now (Aware t) ty =
     Inr (projr (check_temporal_plausibility now (Aware t) ty))"
  by (simp add: check_temporal_plausibility_def Let_def)

lemma calculate_verification_score_unfold:
  "check_temporal_plausibility now ts ty = Inr temporal \<Longrightarrow>
   check_cross_verification lat lon ts ty db = Inr cross \<Longrightarrow>
   calculate_verification_score now ty lat lon ts trust desc db =
     Inr (max 0 (min 1
       ((check_spatial_plausibility lat lon ty * 0.20 + temporal * 0.15 + trust * 0.30
          + cross * 0.25 + check_description_quality desc * 0.10)
        / (0.20 + 0.15 + 0.30 + 0.25 + 0.10))))"
  by (simp add: calculate_verification_score_def Let_def)

lemma check_cross_verification_in_range:
  assumes "datetime_min \<le> instant ts - 6 * us_per_hour"
    and "instant ts + 6 * us_per_hour \<le> datetime_max"
  shows "check_cross_verification lat lon ts ty db =
           Inr (projr (check_cross_verification lat lon ts ty db))"
  using assms by (simp add: check_cross_verification_unfold)

text \<open>
  For a timestamp that carries a time zone and lies at least six hours inside the range
  of datetimes, the aggregator returns the weighted sum of the five component scores
  divided by the sum of the weights and clamped to \<open>[0, 1]\<close>.
\<close>

lemma calculate_verification_score_in_range:
  assumes "datetime_min \<le> t - 6 * us_per_hour" and "t + 6 * us_per_hour \<le> datetime_max"
  shows "\<exists>temporal cross score.
     check_temporal_plausibility now (Aware t) ty = Inr temporal \<and>
     check_cross_verification lat lon (Aware t) ty db = Inr cross \<and>
     calculate_verification_score now ty lat lon (Aware t) trust desc db = Inr score \<and>
     score = max 0 (min 1
       ((check_spatial_plausibility lat lon ty * 0.20 + temporal * 0.15 + trust * 0.30
          + cross * 0.25 + check_description_quality desc * 0.10)
        / (0.20 + 0.15 + 0.30 + 0.25 + 0.10))) \<and>
     0 \<le> score \<and> score \<le> 1"
proof -
  obtain temporal where tp: "check_temporal_plausibility now (Aware t) ty = Inr temporal"
    using check_temporal_plausibility_aware by (rule that)
  have "datetime_min \<le> instant (Aware t) - 6 * us_per_hour"
    "instant (Aware t) + 6 * us_per_hour \<le> datetime_max"
    using assms by (simp_all add: instant_def)
  then have "check_cross_verification lat lon (Aware t) ty db =
      Inr (projr (check_cross_verification lat lon (Aware t) ty db))"
    by (rule check_cross_verification_in_range)
  then obtain cross where cr: "check_cross_verification lat lon (Aware t) ty db = Inr cross"
    by (rule that)
  show ?thesis
    using tp cr calculate_verification_score_unfold [OF tp cr, of trust desc] by simp
qed

text \<open>Within six hours of the least or the greatest datetime the call raises.\<close>

lemma calculate_verification_score_overflow:
  assumes "t - 6 * us_per_hour < datetime_min \<or> datetime_max < t + 6 * us_per_hour"
  shows "calculate_verification_score now ty lat lon (Aware t) trust desc db = Inl OverflowError"
proof -
  obtain temporal where tp: "check_temporal_plausibility now (Aware t) ty = Inr temporal"
    using check_temporal_plausibility_aware by (rule that)
  have "check_cross_verification lat lon (Aware t) ty db = Inl OverflowError"
    using assms by (simp add: check_cross_verification_unfold instant_def)
  then show ?thesis
    using tp by (simp add: calculate_verification_score_def Let_def)
qed

text \<open>
  C1. The claim is that the aggregator returns the clamped weighted sum of the five
  component scores for every well-formed input. A timestamp without a time zone is
  such an input: the request schema accepts it, and the tests of the repository submit
  \<^verbatim>\<open>datetime.utcnow()\<close> values. The temporal evaluator compares it with the aware
  clock reading, so for every such timestamp the aggregator raises \<^verbatim>\<open>TypeError\<close>
  and returns no score.
\<close>

theorem calculate_verification_score_naive_timestamp:
  "calculate_verification_score now ty lat lon (Naive t) trust desc db = Inl TypeError"
  by (simp add: calculate_verification_score_def check_temporal_plausibility_def Let_def)

subsection \<open>Temporal plausibility\<close>

lemma less_div_iff:
  fixes x d k :: int
  assumes "0 < d"
  shows "k < x div d \<longleftrightarrow> (k + 1) * d \<le> x"
proof
  assume "k < x div d"
  then have "k + 1 \<le> x div d" by simp
  then have "(k + 1) * d \<le> (x div d) * d"
    using assms by (simp add: mult_right_mono)
  also have "\<dots> \<le> x"
    using assms by (metis div_mult_mod_eq le_add_same_cancel1 pos_mod_sign)
  finally show "(k + 1) * d \<le> x" .
next
  assume "(k + 1) * d \<le> x"
  then have "((k + 1) * d) div d \<le> x div d"
    using assms by (rule zdiv_mono1)
  then show "k < x div d" using assms by simp
qed

text \<open>
  What the evaluator computes: the steps are at 2, 4 and 8 whole days of age, because
  the age is cut down to whole days before it is compared with 1, 3 and 7.
\<close>

lemma check_temporal_plausibility_steps:
  assumes "t \<le> now"
  shows "check_temporal_plausibility now (Aware t) ty =
           Inr (if 8 * us_per_day \<le> now - t then 0.4
                else if 4 * us_per_day \<le> now - t then 0.6
                else if 2 * us_per_day \<le> now - t then 0.8
                else 1.0)"
proof -
  have d: "0 < us_per_day" by (simp add: us_per_day_def)
  have "7 < (now - t) div us_per_day \<longleftrightarrow> 8 * us_per_day \<le> now - t"
    "3 < (now - t) div us_per_day \<longleftrightarrow> 4 * us_per_day \<le> now - t"
    "1 < (now - t) div us_per_day \<longleftrightarrow> 2 * us_per_day \<le> now - t"
    using less_div_iff [OF d, of 7 "now - t"] less_div_iff [OF d, of 3 "now - t"]
      less_div_iff [OF d, of 1 "now - t"] by simp_all
  then show ?thesis
    using assms by (simp add: check_temporal_plausibility_def Let_def)
qed

lemma check_temporal_plausibility_future:
  "now < t \<Longrightarrow> check_temporal_plausibility now (Aware t) ty = Inr 0"
  by (simp add: check_temporal_plausibility_def)

text \<open>
  C2. The claim is that the evaluator is the step function of the exact age: 0.4 above
  7 days, 0.6 above 3 days, 0.8 above 1 day, so that an age of 7.5 days scores 0.4 and
  an age of 1.5 days scores 0.8. The code scores an age of 7.5 days (648000000000
  microseconds) 0.6 and an age of 1.5 days (129600000000 microseconds) 1.0.
\<close>

theorem check_temporal_plausibility_whole_days:
  "check_temporal_plausibility 648000000000 (Aware 0) ARMED_ATTACK = Inr 0.6 \<and>
   check_temporal_plausibility 129600000000 (Aware 0) ARMED_ATTACK = Inr 1.0"
  by (simp add: check_temporal_plausibility_def us_per_day_def)

subsection \<open>Reporter trust\<close>

lemma trust_score_update_nonzero:
  "reports_submitted u \<noteq> 0 \<Longrightarrow>
   trust_score (update_trust_score u) =
     max 0 (min 1 (((reports_verified u / reports_submitted u) * 0.8 + 0.2
                     - (reports_rejected u / reports_submitted u) * 0.3)
                    * min (reports_submitted u / 20) 1
                   + 0.5 * (1 - min (reports_submitted u / 20) 1)))"
  by (simp add: update_trust_score_def Let_def)

text \<open>
  C3. With \<open>reports_submitted > 0\<close> the recomputed trust score is
  \<open>clamp01 ((verified / submitted * 0.8 + 0.2 - rejected / submitted * 0.3) * w
  + 0.5 * (1 - w))\<close> with \<open>w = min (submitted / 20) 1\<close>; with \<open>reports_submitted = 0\<close>
  it is exactly 0.5; and for the counters (10, 8, 2) it is 0.64.
\<close>

theorem update_trust_score_formula:
  "(0 < reports_submitted u \<longrightarrow>
      trust_score (update_trust_score u) =
        max 0 (min 1 (((reports_verified u / reports_submitted u) * 0.8 + 0.2
                        - (reports_rejected u / reports_submitted u) * 0.3)
                       * min (reports_submitted u / 20) 1.0
                      + 0.5 * (1 - min (reports_submitted u / 20) 1.0)))) \<and>
   (reports_submitted u = 0 \<longrightarrow> trust_score (update_trust_score u) = 0.5) \<and>
   trust_score (update_trust_score \<lparr>phone_number = p, trust_score = t,
      reports_submitted = 10, reports_verified = 8, reports_rejected = 2\<rparr>) = 0.64"
  by (simp add: update_trust_score_def Let_def)

theorem update_trust_score_formula_witness:
  "(0::real) < reports_submitted \<lparr>phone_number = None, trust_score = 0.5,
      reports_submitted = 20, reports_verified = 20, reports_rejected = 0\<rparr> \<and>
   trust_score (update_trust_score \<lparr>phone_number = None, trust_score = 0.5,
      reports_submitted = 20, reports_verified = 20, reports_rejected = 0\<rparr>) = 1 \<and>
   reports_submitted \<lparr>phone_number = None, trust_score = 0.9,
      reports_submitted = 0, reports_verified = 0, reports_rejected = 0\<rparr> = 0 \<and>
   trust_score (update_trust_score \<lparr>phone_number = None, trust_score = 0.9,
      reports_submitted = 0, reports_verified = 0, reports_rejected = 0\<rparr>) = 0.5"
  using update_trust_score_formula [of "\<lparr>phone_number = None, trust_score = 0.5,
      reports_submitted = 20, reports_verified = 20, reports_rejected = 0\<rparr>"]
    update_trust_score_formula [of "\<lparr>phone_number = None, trust_score = 0.9,
      reports_submitted = 0, reports_verified = 0, reports_rejected = 0\<rparr>"]
  by simp

lemma unclamped_strict:
  fixes s v r r' :: real
  assumes "0 < s" "r < r'"
  shows "((v / s) * 0.8 + 0.2 - (r' / s) * 0.3) * min (s / 20) 1 + 0.5 * (1 - min (s / 20) 1)
       < ((v / s) * 0.8 + 0.2 - (r / s) * 0.3) * min (s / 20) 1 + 0.5 * (1 - min (s / 20) 1)"
proof -
  have w: "0 < min (s / 20) 1" using assms(1) by simp
  have "r / s < r' / s" using assms by (simp add: divide_strict_right_mono)
  then have "(v / s) * 0.8 + 0.2 - (r' / s) * 0.3 < (v / s) * 0.8 + 0.2 - (r / s) * 0.3"
    by simp
  then have "((v / s) * 0.8 + 0.2 - (r' / s) * 0.3) * min (s / 20) 1
           < ((v / s) * 0.8 + 0.2 - (r / s) * 0.3) * min (s / 20) 1"
    using w by (rule mult_strict_right_mono)
  then show ?thesis by simp
qed

lemma clamp_mono:
  fixes x y :: real
  assumes "x < y"
  shows "max 0 (min 1 x) \<le> max 0 (min 1 y)"
    and "0 < max 0 (min 1 y) \<Longrightarrow> max 0 (min 1 x) < 1 \<Longrightarrow> max 0 (min 1 x) < max 0 (min 1 y)"
  using assms by (auto simp: max_def min_def split: if_splits)

text \<open>
  C4, as claimed: for fixed \<open>reports_submitted > 0\<close> and fixed \<open>reports_verified\<close>, a
  larger \<open>reports_rejected\<close> gives a strictly smaller trust score. With 20 reports
  submitted and none verified, 14 and 15 rejections both give the score 0: the clamp
  at 0 has been reached.
\<close>

theorem trust_penalty_counterexample:
  "\<not> trust_score (update_trust_score \<lparr>phone_number = None, trust_score = 0.5,
         reports_submitted = 20, reports_verified = 0, reports_rejected = 15\<rparr>)
     < trust_score (update_trust_score \<lparr>phone_number = None, trust_score = 0.5,
         reports_submitted = 20, reports_verified = 0, reports_rejected = 14\<rparr>)"
  by (simp add: update_trust_score_def Let_def)

text \<open>
  C4, amended: for fixed \<open>reports_submitted > 0\<close> and fixed \<open>reports_verified\<close>, a
  larger \<open>reports_rejected\<close> never gives a larger trust score, and it gives a strictly
  smaller one whenever the clamp is not in the way, that is, whenever the score before
  is above 0 and the score after is below 1.
\<close>

theorem update_trust_score_rejected_monotone:
  assumes "0 < reports_submitted u" and "reports_rejected u < r'"
  shows "trust_score (update_trust_score (u\<lparr>reports_rejected := r'\<rparr>))
           \<le> trust_score (update_trust_score u) \<and>
         (0 < trust_score (update_trust_score u) \<and>
          trust_score (update_trust_score (u\<lparr>reports_rejected := r'\<rparr>)) < 1 \<longrightarrow>
          trust_score (update_trust_score (u\<lparr>reports_rejected := r'\<rparr>))
            < trust_score (update_trust_score u))"
proof -
  define s where "s = reports_submitted u"
  define v where "v = reports_verified u"
  define r where "r = reports_rejected u"
  define g where "g = (\<lambda>x::real. ((v / s) * 0.8 + 0.2 - (x / s) * 0.3) * min (s / 20) 1
                                + 0.5 * (1 - min (s / 20) 1))"
  have s: "0 < s" and r: "r < r'" using assms by (simp_all add: s_def r_def)
  have old: "trust_score (update_trust_score u) = max 0 (min 1 (g r))"
    using s by (simp add: trust_score_update_nonzero s_def v_def r_def g_def)
  have new: "trust_score (update_trust_score (u\<lparr>reports_rejected := r'\<rparr>)) = max 0 (min 1 (g r'))"
    using s by (simp add: trust_score_update_nonzero s_def v_def g_def)
  have lt: "g r' < g r"
    unfolding g_def using s r by (rule unclamped_strict)
  show ?thesis
    unfolding old new using clamp_mono(1) [OF lt] clamp_mono(2) [OF lt] by blast
qed

theorem update_trust_score_rejected_monotone_witness:
  "(0::real) < reports_submitted \<lparr>phone_number = None, trust_score = 0.5,
      reports_submitted = 10, reports_verified = 8, reports_rejected = 1\<rparr> \<and>
   reports_rejected \<lparr>phone_number = None, trust_score = 0.5,
      reports_submitted = 10, reports_verified = 8, reports_rejected = 1\<rparr> < (2::real) \<and>
   trust_score (update_trust_score \<lparr>phone_number = None, trust_score = 0.5,
      reports_submitted = 10, reports_verified = 8, reports_rejected = 2\<rparr>)
     < trust_score (update_trust_score \<lparr>phone_number = None, trust_score = 0.5,
      reports_submitted = 10, reports_verified = 8, reports_rejected = 1\<rparr>)"
  using update_trust_score_rejected_monotone [of "\<lparr>phone_number = None, trust_score = 0.5,
      reports_submitted = 10, reports_verified = 8, reports_rejected = 1\<rparr>" 2]
  by (simp add: update_trust_score_def Let_def)

subsection \<open>Spatial plausibility\<close>

lemma outside_bounds_invalid:
  "latitude < 4.0 \<or> 14.0 < latitude \<or> longitude < 2.5 \<or> 15.0 < longitude \<Longrightarrow>
   \<not> validate_nigerian_coordinates longitude latitude"
  by (auto simp: validate_nigerian_coordinates_def NIGERIA_BOUNDS_def)

text \<open>
  C6. For every coordinate outside the national bounding box (latitude outside
  \<open>[4.0, 14.0]\<close> or longitude outside \<open>[2.5, 15.0]\<close>) and every incident type, the spatial
  plausibility evaluator returns exactly 0.0. The evaluator is a total function with no
  error branch: it cannot raise.
\<close>

theorem check_spatial_plausibility_out_of_bounds:
  "latitude < 4.0 \<or> 14.0 < latitude \<or> longitude < 2.5 \<or> 15.0 < longitude \<Longrightarrow>
   check_spatial_plausibility latitude longitude incident_type = 0.0"
  unfolding check_spatial_plausibility_def
  by (simp only: outside_bounds_invalid not_False_eq_True if_True)

theorem check_spatial_plausibility_out_of_bounds_witness:
  "((3.5::real) < 4.0 \<or> 14.0 < (3.5::real) \<or> (7.0::real) < 2.5 \<or> 15.0 < (7.0::real)) \<and>
   check_spatial_plausibility 3.5 7.0 INSURGENT_ATTACK = 0.0"
  using check_spatial_plausibility_out_of_bounds [of "3.5" "7.0" INSURGENT_ATTACK] by simp

subsection \<open>The reporter step\<close>

lemma query_first_less: "query_first P xs = Some i \<Longrightarrow> i < length xs"
  by (induction xs arbitrary: i) (auto split: if_splits)

lemma flush_insert_without_credentials:
  "email new_row = None \<or> password_hash new_row = None \<Longrightarrow>
   flush_insert new_row db = Inl IntegrityError"
  by (simp add: flush_insert_def)

text \<open>A reporter already in the table: the counter of the row goes up by one.\<close>

lemma create_incident_reporter_existing:
  assumes "phone \<noteq> []"
    and "query_first (\<lambda>u. phone_number u = Some phone) db = Some i"
  shows "create_incident_reporter \<lparr>reporter_phone = Some phone, is_anonymous = False\<rparr> db
           = Inr (db[i := (db ! i)\<lparr>reports_submitted := reports_submitted (db ! i) + 1\<rparr>],
                  Some i, trust_score (db ! i))"
  using assms by (simp add: create_incident_reporter_def Let_def)

text \<open>
  A reporter not yet in the table: the new row has no \<open>email\<close> and no
  \<open>password_hash\<close>, the INSERT fails and the request ends there.
\<close>

lemma create_incident_reporter_new:
  assumes "phone \<noteq> []"
    and "query_first (\<lambda>u. phone_number u = Some phone) db = None"
  shows "create_incident_reporter \<lparr>reporter_phone = Some phone, is_anonymous = False\<rparr> db
           = Inl IntegrityError"
  using assms
  by (simp add: create_incident_reporter_def Let_def flush_insert_without_credentials)

text \<open>
  So a submission that gets past this step with a reporter has found the reporter in
  the table and has counted itself.
\<close>

lemma create_incident_reporter_counted:
  assumes "create_incident_reporter incident_data db = Inr (db', Some i, t)"
  shows "i < length db \<and> reports_submitted (db' ! i) = reports_submitted (db ! i) + 1"
proof -
  obtain phone where ph: "reporter_phone incident_data = Some phone"
    using assms by (cases "reporter_phone incident_data")
      (simp_all add: create_incident_reporter_def)
  have cond: "phone \<noteq> [] \<and> \<not> is_anonymous incident_data"
    using assms ph by (auto simp: create_incident_reporter_def split: if_splits)
  show ?thesis
  proof (cases "query_first (\<lambda>u. phone_number u = Some phone) db")
    case None
    then show ?thesis
      using assms ph cond
      by (simp add: create_incident_reporter_def Let_def flush_insert_without_credentials)
  next
    case (Some j)
    then show ?thesis
      using assms ph cond query_first_less [OF Some]
      by (auto simp: create_incident_reporter_def Let_def)
  qed
qed

text \<open>
  C7. The claim is that every non-anonymous submission leaves the reporter's
  \<open>reports_submitted\<close> one greater than before, the reporter's first submission
  included, when the reporter is created implicitly. On the first submission of a
  telephone number (here with an empty user table) the code does not create the
  reporter: the INSERT of the new row fails with \<^verbatim>\<open>IntegrityError\<close>, the submission
  is not scored and nothing is counted.
\<close>

theorem create_incident_reporter_first_submission:
  "create_incident_reporter
     \<lparr>reporter_phone = Some ''+2348012345678'', is_anonymous = False\<rparr> []
   = Inl IntegrityError"
  by (simp add: create_incident_reporter_def Let_def flush_insert_def)

subsection \<open>Determinism\<close>

lemma check_spatial_plausibility_bounds:
  "0 \<le> check_spatial_plausibility lat lon ty \<and> check_spatial_plausibility lat lon ty \<le> 1"
  by (simp add: check_spatial_plausibility_def)

lemma check_temporal_plausibility_bounds:
  "check_temporal_plausibility now ts ty = Inr x \<Longrightarrow> 0 \<le> x \<and> x \<le> 1"
  by (cases ts) (auto simp: check_temporal_plausibility_def Let_def split: if_splits)

lemma check_cross_verification_bounds:
  "check_cross_verification lat lon ts ty db = Inr c \<Longrightarrow> 0 \<le> c \<and> c \<le> 1"
  by (auto simp: check_cross_verification_unfold Let_def split: if_splits)

lemma check_description_quality_bounds:
  "0 \<le> check_description_quality d \<and> check_description_quality d \<le> 1"
  by (cases d) (simp_all add: check_description_quality_def Let_def)

lemma clamped_score_injective:
  fixes s t1 t2 tr c d :: real
  assumes "0 \<le> s" "s \<le> 1" "0 \<le> t1" "t1 \<le> 1" "0 \<le> t2" "t2 \<le> 1"
    and "0 \<le> tr" "tr \<le> 1" "0 \<le> c" "c \<le> 1" "0 \<le> d" "d \<le> 1"
    and eq: "max 0 (min 1 ((s * 0.20 + t1 * 0.15 + tr * 0.30 + c * 0.25 + d * 0.10)
                            / (0.20 + 0.15 + 0.30 + 0.25 + 0.10)))
           = max 0 (min 1 ((s * 0.20 + t2 * 0.15 + tr * 0.30 + c * 0.25 + d * 0.10)
                            / (0.20 + 0.15 + 0.30 + 0.25 + 0.10)))"
  shows "t1 = t2"
proof -
  define u where "u = (\<lambda>t::real. s * 0.20 + t * 0.15 + tr * 0.30 + c * 0.25 + d * 0.10)"
  have one: "(0.20 + 0.15 + 0.30 + 0.25 + 0.10 :: real) = 1" by simp
  have b1: "0 \<le> u t1" "u t1 \<le> 1" using assms(1-12) by (simp_all add: u_def)
  have b2: "0 \<le> u t2" "u t2 \<le> 1" using assms(1-12) by (simp_all add: u_def)
  have "max 0 (min 1 (u t1)) = max 0 (min 1 (u t2))"
    using eq unfolding one u_def by simp
  then have "u t1 = u t2" using b1 b2 by (simp add: max_def min_def split: if_splits)
  then show ?thesis by (simp add: u_def)
qed


lemma sample_spatial: "check_spatial_plausibility 9 7 ARMED_ATTACK = 0.7"
  by (simp add: check_spatial_plausibility_def validate_nigerian_coordinates_def
      NIGERIA_BOUNDS_def)

lemma sample_cross: "check_cross_verification 9 7 (Aware 86400000000) ARMED_ATTACK [] = Inr 0.5"
  by (simp add: check_cross_verification_def add_timedelta_def datetime_min_def
      datetime_max_def us_per_hour_def Let_def)

lemma sample_description: "check_description_quality None = 0"
  by (simp add: check_description_quality_def)

lemma sample_temporal_fresh:
  "check_temporal_plausibility 86400000000 (Aware 86400000000) ARMED_ATTACK = Inr 1.0"
  by (simp add: check_temporal_plausibility_def us_per_day_def)

lemma sample_temporal_stale:
  "check_temporal_plausibility 950400000000 (Aware 86400000000) ARMED_ATTACK = Inr 0.4"
  by (simp add: check_temporal_plausibility_def us_per_day_def)

lemma sample_score_fresh:
  "calculate_verification_score 86400000000 ARMED_ATTACK 9 7 (Aware 86400000000) 0.5 None []
     = Inr 0.565"
  unfolding calculate_verification_score_unfold [OF sample_temporal_fresh sample_cross]
    sample_spatial sample_description
  by simp

lemma sample_score_stale:
  "calculate_verification_score 950400000000 ARMED_ATTACK 9 7 (Aware 86400000000) 0.5 None []
     = Inr 0.475"
  unfolding calculate_verification_score_unfold [OF sample_temporal_stale sample_cross]
    sample_spatial sample_description
  by simp

text \<open>
  C8, as claimed: two calls of the aggregator with the same arguments and the same
  incident table give the same score. The temporal evaluator reads the clock: the same
  call made when the incident happens and ten days later gives 0.565 and 0.475.
\<close>

theorem calculate_verification_score_clock_counterexample:
  "calculate_verification_score 86400000000 ARMED_ATTACK 9 7 (Aware 86400000000) 0.5 None []
   \<noteq> calculate_verification_score 950400000000 ARMED_ATTACK 9 7 (Aware 86400000000) 0.5 None []"
  unfolding sample_score_fresh sample_score_stale by simp

lemma calculate_verification_score_temporal_only:
  assumes "check_temporal_plausibility now1 ts ty = check_temporal_plausibility now2 ts ty"
  shows "calculate_verification_score now1 ty lat lon ts trust desc db
       = calculate_verification_score now2 ty lat lon ts trust desc db"
  unfolding calculate_verification_score_def by (simp only: assms)

lemma calculate_verification_score_temporal_reflected:
  assumes trust: "0 \<le> trust" "trust \<le> 1"
    and range: "datetime_min \<le> instant ts - 6 * us_per_hour"
      "instant ts + 6 * us_per_hour \<le> datetime_max"
    and eq: "calculate_verification_score now1 ty lat lon ts trust desc db
           = calculate_verification_score now2 ty lat lon ts trust desc db"
  shows "check_temporal_plausibility now1 ts ty = check_temporal_plausibility now2 ts ty"
proof (cases ts)
  case (Naive t)
  then show ?thesis by (simp add: check_temporal_plausibility_def)
next
  case (Aware t)
  have "check_temporal_plausibility now1 ts ty =
      Inr (projr (check_temporal_plausibility now1 ts ty))"
    unfolding Aware by (rule check_temporal_plausibility_aware)
  then obtain t1 where t1: "check_temporal_plausibility now1 ts ty = Inr t1"
    by (rule that)
  have "check_temporal_plausibility now2 ts ty =
      Inr (projr (check_temporal_plausibility now2 ts ty))"
    unfolding Aware by (rule check_temporal_plausibility_aware)
  then obtain t2 where t2: "check_temporal_plausibility now2 ts ty = Inr t2"
    by (rule that)
  have "check_cross_verification lat lon ts ty db =
      Inr (projr (check_cross_verification lat lon ts ty db))"
    using range by (rule check_cross_verification_in_range)
  then obtain c where c: "check_cross_verification lat lon ts ty db = Inr c"
    by (rule that)
  note s = check_spatial_plausibility_bounds [of lat lon ty]
  note d = check_description_quality_bounds [of desc]
  note b1 = check_temporal_plausibility_bounds [OF t1]
  note b2 = check_temporal_plausibility_bounds [OF t2]
  note bc = check_cross_verification_bounds [OF c]
  have "max 0 (min 1 ((check_spatial_plausibility lat lon ty * 0.20 + t1 * 0.15 + trust * 0.30
                         + c * 0.25 + check_description_quality desc * 0.10)
                        / (0.20 + 0.15 + 0.30 + 0.25 + 0.10)))
      = max 0 (min 1 ((check_spatial_plausibility lat lon ty * 0.20 + t2 * 0.15 + trust * 0.30
                         + c * 0.25 + check_description_quality desc * 0.10)
                        / (0.20 + 0.15 + 0.30 + 0.25 + 0.10)))"
    using eq
    unfolding calculate_verification_score_unfold [OF t1 c]
      calculate_verification_score_unfold [OF t2 c]
    by (simp only: sum.inject)
  then have "t1 = t2"
    using s d b1 b2 bc trust
    by (intro clamped_score_injective
          [of "check_spatial_plausibility lat lon ty" t1 t2 trust c
              "check_description_quality desc"]) simp_all
  then show ?thesis using t1 t2 by simp
qed

text \<open>
  C8, amended: two calls of the aggregator with the same arguments and the same
  incident table give the same result whenever the temporal evaluator, the one
  component that reads the clock, scores the timestamp the same at the two clock
  readings (in particular when the clock reads the same); and for a reporter trust score
  in \<open>[0, 1]\<close> and a timestamp at least six hours inside the range of datetimes, only
  then. Nothing else is read and nothing is random.
\<close>

theorem calculate_verification_score_deterministic:
  "(check_temporal_plausibility now1 ts ty = check_temporal_plausibility now2 ts ty \<longrightarrow>
      calculate_verification_score now1 ty lat lon ts trust desc db
        = calculate_verification_score now2 ty lat lon ts trust desc db) \<and>
   (0 \<le> trust \<and> trust \<le> 1 \<and>
    datetime_min \<le> instant ts - 6 * us_per_hour \<and>
    instant ts + 6 * us_per_hour \<le> datetime_max \<and>
    calculate_verification_score now1 ty lat lon ts trust desc db
      = calculate_verification_score now2 ty lat lon ts trust desc db \<longrightarrow>
    check_temporal_plausibility now1 ts ty = check_temporal_plausibility now2 ts ty)"
  using calculate_verification_score_temporal_only [of now1 ts ty now2 lat lon trust desc db]
    calculate_verification_score_temporal_reflected [of trust ts now1 ty lat lon desc db now2]
  by blast

lemma sample_temporal_hour:
  "check_temporal_plausibility 90000000000 (Aware 86400000000) ARMED_ATTACK = Inr 1.0"
  by (simp add: check_temporal_plausibility_def us_per_day_def)

lemma sample_temporal_next_day:
  "check_temporal_plausibility 176400000000 (Aware 86400000000) ARMED_ATTACK = Inr 1.0"
  by (simp add: check_temporal_plausibility_def us_per_day_def)

theorem calculate_verification_score_deterministic_witness:
  "check_temporal_plausibility 90000000000 (Aware 86400000000) ARMED_ATTACK
     = check_temporal_plausibility 176400000000 (Aware 86400000000) ARMED_ATTACK \<and>
   (0::real) \<le> 0.5 \<and> (0.5::real) \<le> 1 \<and>
   datetime_min \<le> instant (Aware 86400000000) - 6 * us_per_hour \<and>
   instant (Aware 86400000000) + 6 * us_per_hour \<le> datetime_max \<and>
   calculate_verification_score 90000000000 ARMED_ATTACK 9 7 (Aware 86400000000) 0.5 None []
     = calculate_verification_score 176400000000 ARMED_ATTACK 9 7 (Aware 86400000000) 0.5 None []"
proof -
  have eq: "check_temporal_plausibility 90000000000 (Aware 86400000000) ARMED_ATTACK
      = check_temporal_plausibility 176400000000 (Aware 86400000000) ARMED_ATTACK"
    unfolding sample_temporal_hour sample_temporal_next_day by (rule refl)
  have range: "datetime_min \<le> instant (Aware 86400000000) - 6 * us_per_hour"
    "instant (Aware 86400000000) + 6 * us_per_hour \<le> datetime_max"
    by (simp_all add: datetime_min_def datetime_max_def instant_def us_per_hour_def)
  from calculate_verification_score_deterministic
    [where ?now1.0 = 90000000000 and ?now2.0 = 176400000000 and ts = "Aware 86400000000"
       and ty = ARMED_ATTACK and lat = 9 and lon = 7 and trust = "0.5" and desc = None
       and db = "[]"]
  have "calculate_verification_score 90000000000 ARMED_ATTACK 9 7 (Aware 86400000000) 0.5 None []
     = calculate_verification_score 176400000000 ARMED_ATTACK 9 7 (Aware 86400000000) 0.5 None []"
    using eq by blast
  then show ?thesis using eq range by simp
qed

subsection \<open>Great-circle distance\<close>



subsection \<open>Description quality\<close>







end
